theory Spec2Isabelle
  imports Main
begin

section \<open>The behaviour-tree dotcode generator of rqt\_py\_trees\<close>

text \<open>
  A shallow embedding of \<^verbatim>\<open>RosBehaviourTreeDotcodeGenerator\<close>
  (\<^verbatim>\<open>rqt_py_trees/dotcode_behaviour.py\<close>): the classifier functions, the tooltip
  formatter, the two-pass graph builder \<^verbatim>\<open>generate\<close> and the entry point
  \<^verbatim>\<open>generate_dotcode\<close> with the attributes it keeps between calls.
\<close>

subsection \<open>Data\<close>

text \<open>
  Modelled from the spec: the message definition \<^verbatim>\<open>py_trees_msgs/Behaviour\<close> (the
  integer constants BEHAVIOUR, SEQUENCE, SELECTOR and INVALID, RUNNING, SUCCESS, FAILURE)
  is not among the sources. The spec describes \<^verbatim>\<open>type\<close> and \<^verbatim>\<open>status\<close> as
  enumerations; the code only compares the two fields with these constants. Each
  enumeration is a datatype with one constructor per constant the code names and one
  constructor for every other value of the field (carrying that value).
\<close>

datatype behaviour_type = BEHAVIOUR | SEQUENCE | SELECTOR | OTHER_TYPE nat

datatype behaviour_status = INVALID | RUNNING | SUCCESS | FAILURE | OTHER_STATUS nat

text \<open>
  One entry of \<^verbatim>\<open>tree.behaviours\<close>, with the fields the generator reads. The type
  \<open>'i\<close> is the type of identifiers (\<^verbatim>\<open>uuid_msgs/UniqueID\<close>); the code only ever
  applies \<^verbatim>\<open>str\<close> to them, and that function is a parameter \<open>str\<close> of the model.
\<close>

record 'i behaviour =
  own_id :: 'i
  name :: string
  class_name :: string
  type :: behaviour_type
  status :: behaviour_status
  message :: string
  child_ids :: "'i list"

text \<open>The exceptions the modelled code can raise.\<close>

datatype error = AttributeError | KeyError string | TypeError

subsection \<open>Classifier functions\<close>

definition type_to_shape :: "behaviour_type \<Rightarrow> string" where
  "type_to_shape behaviour_type =
     (if behaviour_type = BEHAVIOUR then ''ellipse''
      else if behaviour_type = SEQUENCE then ''box''
      else if behaviour_type = SELECTOR then ''ellipse''
      else ''box'')"

text \<open>A colour or a label is a Python string or \<^verbatim>\<open>None\<close>: a \<open>string option\<close>.\<close>

definition type_to_colour :: "behaviour_type \<Rightarrow> string option" where
  "type_to_colour behaviour_type =
     (if behaviour_type = BEHAVIOUR then None
      else if behaviour_type = SEQUENCE then Some ''#ff9900''
      else if behaviour_type = SELECTOR then Some ''#808080''
      else None)"

definition status_to_colour :: "behaviour_status \<Rightarrow> string option" where
  "status_to_colour behaviour_status =
     (if behaviour_status = INVALID then Some ''#e4e4e4''
      else if behaviour_status = RUNNING then Some ''#000000''
      else if behaviour_status = FAILURE then Some ''#ff0000''
      else if behaviour_status = SUCCESS then Some ''#00ff00''
      else None)"

definition type_to_string :: "behaviour_type \<Rightarrow> string option" where
  "type_to_string behaviour_type =
     (if behaviour_type = BEHAVIOUR then Some ''Behaviour''
      else if behaviour_type = SEQUENCE then Some ''Sequence''
      else if behaviour_type = SELECTOR then Some ''Selector''
      else None)"

definition status_to_string :: "behaviour_status \<Rightarrow> string option" where
  "status_to_string behaviour_status =
     (if behaviour_status = INVALID then Some ''Invalid''
      else if behaviour_status = RUNNING then Some ''Running''
      else if behaviour_status = FAILURE then Some ''Failure''
      else if behaviour_status = SUCCESS then Some ''Success''
      else None)"

subsection \<open>Python's string operations and truth test\<close>

text \<open>
  \<^verbatim>\<open>not value\<close> for a value that is a string or \<^verbatim>\<open>None\<close>: true for
  \<^verbatim>\<open>None\<close> and for the empty string.
\<close>

fun py_not :: "string option \<Rightarrow> bool" where
  "py_not None = True"
| "py_not (Some s) = (s = [])"

text \<open>\<^verbatim>\<open>a or b\<close>: \<open>a\<close> when it is true, otherwise \<open>b\<close>.\<close>

definition py_or :: "string option \<Rightarrow> string option \<Rightarrow> string option" where
  "py_or a b = (if py_not a then b else a)"

text \<open>
  \<^verbatim>\<open>prefix + value\<close> where \<open>prefix\<close> is a string: concatenation, and a
  \<^verbatim>\<open>TypeError\<close> when \<open>value\<close> is \<^verbatim>\<open>None\<close>.
\<close>

fun py_add :: "string \<Rightarrow> string option \<Rightarrow> error + string" where
  "py_add prefix None = Inl TypeError"
| "py_add prefix (Some v) = Inr (prefix @ v)"

text \<open>\<^verbatim>\<open>s.replace(old, new)\<close> for single characters.\<close>

definition replace :: "char \<Rightarrow> char \<Rightarrow> string \<Rightarrow> string" where
  "replace old new s = map (\<lambda>c. if c = old then new else c) s"

text \<open>
  \<^verbatim>\<open>s.title()\<close> on ASCII text: a letter that does not follow a letter is made upper
  case, a letter that follows a letter is made lower case, every other character is kept
  and ends the word.
\<close>

definition islower :: "char \<Rightarrow> bool" where
  "islower c = (97 \<le> (of_char c :: nat) \<and> (of_char c :: nat) \<le> 122)"

definition isupper :: "char \<Rightarrow> bool" where
  "isupper c = (65 \<le> (of_char c :: nat) \<and> (of_char c :: nat) \<le> 90)"

definition toupper :: "char \<Rightarrow> char" where
  "toupper c = char_of ((of_char c :: nat) - 32)"

definition tolower :: "char \<Rightarrow> char" where
  "tolower c = char_of ((of_char c :: nat) + 32)"

fun title_from :: "bool \<Rightarrow> string \<Rightarrow> string" where
  "title_from previous_is_cased [] = []"
| "title_from previous_is_cased (c # cs) =
     (if islower c then
        (if previous_is_cased then c else toupper c) # title_from True cs
      else if isupper c then
        (if previous_is_cased then tolower c else c) # title_from True cs
      else c # title_from False cs)"

definition title :: "string \<Rightarrow> string" where
  "title s = title_from False s"

subsection \<open>The tooltip formatter\<close>

definition to_display :: "string list" where
  "to_display = [''class_name'', ''type'', ''status'', ''message'']"

text \<open>
  \<^verbatim>\<open>str(getattr(behaviour, attr))\<close> in the last branch of the loop body. The
  attributes \<^verbatim>\<open>type\<close> and \<^verbatim>\<open>status\<close> are taken by the branches before it;
  the string fields of the message are returned as they are (\<^verbatim>\<open>str\<close> of a string
  is that string), the identifier goes through \<open>str\<close>, and a name that is no attribute
  of the message raises \<^verbatim>\<open>AttributeError\<close>. The list \<^verbatim>\<open>child_ids\<close> is left
  out: its printed form is not needed, the loop runs over \<open>to_display\<close> only.
\<close>

definition str_getattr :: "('i \<Rightarrow> string) \<Rightarrow> 'i behaviour \<Rightarrow> string \<Rightarrow> error + string option" where
  "str_getattr str behaviour attr =
     (if attr = ''class_name'' then Inr (Some (class_name behaviour))
      else if attr = ''message'' then Inr (Some (message behaviour))
      else if attr = ''name'' then Inr (Some (name behaviour))
      else if attr = ''own_id'' then Inr (Some (str (own_id behaviour)))
      else Inl AttributeError)"

text \<open>The loop of \<^verbatim>\<open>behaviour_to_tooltip_string\<close>, with \<open>string\<close> as accumulator.\<close>

fun tooltip_loop :: "('i \<Rightarrow> string) \<Rightarrow> 'i behaviour \<Rightarrow> string \<Rightarrow> string list \<Rightarrow> error + string" where
  "tooltip_loop str behaviour string [] = Inr string"
| "tooltip_loop str behaviour string (attr # attrs) =
     (case (if attr = ''type'' then Inr (type_to_string (type behaviour))
            else if attr = ''status'' then Inr (status_to_string (status behaviour))
            else str_getattr str behaviour attr) of
        Inl e \<Rightarrow> Inl e
      | Inr value \<Rightarrow>
          (let value = (if py_not value then Some ''<i>empty</i>'' else value) in
           case py_add (''<b>'' @ title (replace CHR ''_'' CHR '' '' attr) @ '':</b> '') value of
             Inl e \<Rightarrow> Inl e
           | Inr field \<Rightarrow> tooltip_loop str behaviour (string @ field @ ''<br>'') attrs))"

definition behaviour_to_tooltip_string :: "('i \<Rightarrow> string) \<Rightarrow> 'i behaviour \<Rightarrow> error + string" where
  "behaviour_to_tooltip_string str behaviour =
     (case tooltip_loop str behaviour '''' to_display of
        Inl e \<Rightarrow> Inl e
      | Inr string \<Rightarrow> Inr (''\"'' @ string @ ''\"''))"

subsection \<open>The rendering backend\<close>

text \<open>
  The factory (\<^verbatim>\<open>dotcode_factory\<close>) is an object of another package. The generator
  calls four of its methods; they are parameters of the model, a record of functions over
  the backend's graph type \<open>'g\<close> and its rendered form \<open>'d\<close>. The Python methods
  update the graph object in place; here each returns the updated graph. They are taken to
  return normally.

  \<^verbatim>\<open>add_node_to_graph\<close> has the node name as positional argument and the keyword
  arguments \<^verbatim>\<open>nodelabel\<close>, \<^verbatim>\<open>shape\<close>, \<^verbatim>\<open>color\<close>, \<^verbatim>\<open>tooltip\<close>; a keyword that
  is not given, or given as \<^verbatim>\<open>None\<close>, is \<open>None\<close>. An edge colour is a triple of
  numbers.
\<close>

type_synonym rgb = "nat \<times> nat \<times> nat"

record ('r, 'g, 'd) factory =
  get_graph :: "string option \<Rightarrow> string option \<Rightarrow> 'r option \<Rightarrow> 'g"
  add_node_to_graph ::
    "'g \<Rightarrow> string \<Rightarrow> string option \<Rightarrow> string option \<Rightarrow> string option \<Rightarrow> string option \<Rightarrow> 'g"
  add_edge_to_graph :: "'g \<Rightarrow> string \<Rightarrow> string \<Rightarrow> rgb \<Rightarrow> 'g"
  create_dot :: "'g \<Rightarrow> 'd"

subsection \<open>The generator object\<close>

text \<open>
  \<^verbatim>\<open>drawing_args\<close> is a dictionary with four fixed keys: a record. The factory is an
  object, compared by identity: it is represented by a reference of type \<open>'f\<close>, and an
  environment \<open>ops\<close> gives the methods of the object behind a reference. The layout
  values are strings or \<^verbatim>\<open>None\<close>; \<^verbatim>\<open>ranksep\<close> is a number of some type \<open>'r\<close>,
  only stored, compared and passed on.
\<close>

record ('f, 'r) drawing_args =
  da_dotcode_factory :: 'f
  da_rank :: "string option"
  da_rankdir :: "string option"
  da_ranksep :: "'r option"

text \<open>The attributes of the generator; \<open>None\<close> is Python's \<^verbatim>\<open>None\<close>.\<close>

record ('f, 'r, 'g, 'd) generator =
  last_drawargs :: "('f, 'r) drawing_args option"
  dotcode :: "'d option"
  firstcall :: bool
  rank :: "string option"
  rankdir :: "string option"
  ranksep :: "'r option"
  graph :: "'g option"
  dotcode_factory :: "'f option"

text \<open>\<^verbatim>\<open>__init__\<close>\<close>

definition init :: "('f, 'r, 'g, 'd) generator" where
  "init = \<lparr>last_drawargs = None, dotcode = None, firstcall = True, rank = None,
           rankdir = None, ranksep = None, graph = None, dotcode_factory = None\<rparr>"

text \<open>\<^verbatim>\<open>tree\<close>: the message with the list of behaviours and a header with a time stamp.\<close>

record 'i tree =
  behaviours :: "'i behaviour list"
  stamp :: nat

subsection \<open>The graph builder\<close>

text \<open>
  The first loop of \<^verbatim>\<open>generate\<close>: one node per behaviour, and the dictionary
  \<^verbatim>\<open>states\<close> from the printed identifier to the status.
\<close>

fun add_nodes ::
  "('r, 'g, 'd) factory \<Rightarrow> ('i \<Rightarrow> string) \<Rightarrow> 'g \<Rightarrow> (string \<rightharpoonup> behaviour_status) \<Rightarrow>
   'i behaviour list \<Rightarrow> error + ('g \<times> (string \<rightharpoonup> behaviour_status))" where
  "add_nodes fac str g states [] = Inr (g, states)"
| "add_nodes fac str g states (behaviour # data) =
     (case behaviour_to_tooltip_string str behaviour of
        Inl e \<Rightarrow> Inl e
      | Inr tooltip \<Rightarrow>
          add_nodes fac str
            (add_node_to_graph fac g (str (own_id behaviour))
               (Some (name behaviour))
               (Some (type_to_shape (type behaviour)))
               (py_or (status_to_colour (status behaviour)) (type_to_colour (type behaviour)))
               (Some tooltip))
            (states(str (own_id behaviour) \<mapsto> status behaviour))
            data)"

text \<open>
  The inner loop of the second pass, over the \<^verbatim>\<open>child_ids\<close> of one behaviour.
  \<^verbatim>\<open>states[str(child_id)]\<close> raises \<^verbatim>\<open>KeyError\<close> when the key is missing.
\<close>

fun add_child_edges ::
  "('r, 'g, 'd) factory \<Rightarrow> ('i \<Rightarrow> string) \<Rightarrow> (string \<rightharpoonup> behaviour_status) \<Rightarrow> 'g \<Rightarrow>
   'i behaviour \<Rightarrow> 'i list \<Rightarrow> error + 'g" where
  "add_child_edges fac str states g behaviour [] = Inr g"
| "add_child_edges fac str states g behaviour (child_id # rest) =
     (let edge_color = (224, 224, 224) in
      case states (str child_id) of
        None \<Rightarrow> Inl (KeyError (str child_id))
      | Some state \<Rightarrow>
          (let edge_color =
                 (if state = RUNNING then (0, 0, 0)
                  else if state = SUCCESS then (0, 255, 0)
                  else if state = FAILURE then (255, 0, 0)
                  else edge_color)
           in add_child_edges fac str states
                (add_edge_to_graph fac g (str (own_id behaviour)) (str child_id) edge_color)
                behaviour rest))"

text \<open>The outer loop of the second pass.\<close>

fun add_edges ::
  "('r, 'g, 'd) factory \<Rightarrow> ('i \<Rightarrow> string) \<Rightarrow> (string \<rightharpoonup> behaviour_status) \<Rightarrow> 'g \<Rightarrow>
   'i behaviour list \<Rightarrow> error + 'g" where
  "add_edges fac str states g [] = Inr g"
| "add_edges fac str states g (behaviour # data) =
     (case add_child_edges fac str states g behaviour (child_ids behaviour) of
        Inl e \<Rightarrow> Inl e
      | Inr g' \<Rightarrow> add_edges fac str states g' data)"

text \<open>
  \<^verbatim>\<open>generate(self, data, timestamp)\<close>. It reads the factory and the layout values
  from the attributes of the generator; with no factory stored, the first method call
  raises \<^verbatim>\<open>AttributeError\<close>. The time stamp is not read.
\<close>

definition generate ::
  "('f \<Rightarrow> ('r, 'g, 'd) factory) \<Rightarrow> ('i \<Rightarrow> string) \<Rightarrow> ('f, 'r, 'g, 'd) generator \<Rightarrow>
   'i behaviour list \<Rightarrow> nat \<Rightarrow> error + 'g" where
  "generate ops str self data timestamp =
     (case dotcode_factory self of
        None \<Rightarrow> Inl AttributeError
      | Some f \<Rightarrow>
          (let g = get_graph (ops f) (rank self) (rankdir self) (ranksep self) in
           if length data = 0 then
             Inr (add_node_to_graph (ops f) g ''No behaviour data received'' None None None None)
           else
             (case add_nodes (ops f) str g Map.empty data of
                Inl e \<Rightarrow> Inl e
              | Inr (g', states) \<Rightarrow> add_edges (ops f) str states g' data)))"

subsection \<open>The entry point\<close>

text \<open>
  \<^verbatim>\<open>generate_dotcode\<close> returns the rendered graph or raises, and updates the
  attributes of the generator; the attributes assigned before an exception stay assigned.
  The result is the pair of the outcome and the generator after the call. The parameter
  \<^verbatim>\<open>timer\<close> is never read and is left out; \<^verbatim>\<open>tree\<close> defaults to \<^verbatim>\<open>None\<close>,
  and \<^verbatim>\<open>tree.behaviours\<close> then raises \<^verbatim>\<open>AttributeError\<close>.
\<close>

definition generate_dotcode ::
  "('f \<Rightarrow> ('r, 'g, 'd) factory) \<Rightarrow> ('i \<Rightarrow> string) \<Rightarrow> ('f, 'r, 'g, 'd) generator \<Rightarrow>
   'f \<Rightarrow> 'i tree option \<Rightarrow> string option \<Rightarrow> 'r option \<Rightarrow> string option \<Rightarrow> bool \<Rightarrow>
   (error + 'd) \<times> ('f, 'r, 'g, 'd) generator" where
  "generate_dotcode ops str self factory' tree' rank' ranksep' rankdir' force_refresh =
     (let (self1, force_refresh1) =
            (if firstcall self then (self\<lparr>firstcall := False\<rparr>, True)
             else (self, force_refresh));
          drawing_args =
            \<lparr>da_dotcode_factory = factory', da_rank = rank', da_rankdir = rankdir',
             da_ranksep = ranksep'\<rparr>;
          selection_changed = False;
          (self2, selection_changed) =
            (if last_drawargs self1 \<noteq> Some drawing_args then
               (self1\<lparr>last_drawargs := Some drawing_args,
                      dotcode_factory := Some factory',
                      rank := rank', rankdir := rankdir', ranksep := ranksep'\<rparr>, True)
             else (self1, selection_changed))
      in case tree' of
           None \<Rightarrow> (Inl AttributeError, self2)
         | Some t \<Rightarrow>
             (case generate ops str self2 (behaviours t) (stamp t) of
                Inl e \<Rightarrow> (Inl e, self2)
              | Inr g \<Rightarrow>
                  (let self3 = self2\<lparr>graph := Some g\<rparr> in
                   case dotcode_factory self3 of
                     None \<Rightarrow> (Inl AttributeError, self3)
                   | Some f \<Rightarrow>
                       (let d = create_dot (ops f) g
                        in (Inr d, self3\<lparr>dotcode := Some d\<rparr>)))))"

subsection \<open>Closed forms used in the statements\<close>

text \<open>
  What the formatter shows for a value: the placeholder for \<^verbatim>\<open>None\<close> and for the
  empty string, the value itself otherwise.
\<close>

definition shown :: "string option \<Rightarrow> string" where
  "shown v = (case v of None \<Rightarrow> ''<i>empty</i>'' | Some s \<Rightarrow> if s = [] then ''<i>empty</i>'' else s)"

text \<open>The text of a tooltip: the four fields in their order, between two quotes.\<close>

definition tooltip_text :: "'i behaviour \<Rightarrow> string" where
  "tooltip_text behaviour =
     ''\"'' @
     ''<b>Class Name:</b> '' @ shown (Some (class_name behaviour)) @ ''<br>'' @
     ''<b>Type:</b> '' @ shown (type_to_string (type behaviour)) @ ''<br>'' @
     ''<b>Status:</b> '' @ shown (status_to_string (status behaviour)) @ ''<br>'' @
     ''<b>Message:</b> '' @ shown (Some (message behaviour)) @ ''<br>'' @
     ''\"''"

text \<open>
  The arguments of one call of \<^verbatim>\<open>add_node_to_graph\<close> (name, label, shape, colour,
  tooltip) and of one call of \<^verbatim>\<open>add_edge_to_graph\<close> (source, target, colour), and
  the two calls applied to such arguments.
\<close>

type_synonym node_args = "string \<times> string option \<times> string option \<times> string option \<times> string option"

type_synonym edge_args = "string \<times> string \<times> rgb"

definition node_call :: "('r, 'g, 'd) factory \<Rightarrow> 'g \<Rightarrow> node_args \<Rightarrow> 'g" where
  "node_call fac g a = (case a of (n, l, s, c, t) \<Rightarrow> add_node_to_graph fac g n l s c t)"

definition edge_call :: "('r, 'g, 'd) factory \<Rightarrow> 'g \<Rightarrow> edge_args \<Rightarrow> 'g" where
  "edge_call fac g a = (case a of (p, c, col) \<Rightarrow> add_edge_to_graph fac g p c col)"

text \<open>
  The node of a behaviour: keyed by the printed identifier, labelled with the name, the
  shape of its type, the colour of its status and, where the status has none, of its type.
\<close>

definition node_args_of :: "('i \<Rightarrow> string) \<Rightarrow> 'i behaviour \<Rightarrow> node_args" where
  "node_args_of str b =
     (str (own_id b), Some (name b), Some (type_to_shape (type b)),
      (case status_to_colour (status b) of Some c \<Rightarrow> Some c | None \<Rightarrow> type_to_colour (type b)),
      Some (tooltip_text b))"

text \<open>
  The dictionary \<^verbatim>\<open>states\<close> after the first loop: for a printed identifier, the
  status of the last behaviour in the list that carries it.
\<close>

definition states_of :: "('i \<Rightarrow> string) \<Rightarrow> 'i behaviour list \<Rightarrow> (string \<rightharpoonup> behaviour_status)" where
  "states_of str data = map_of (rev (map (\<lambda>b. (str (own_id b), status b)) data))"

text \<open>The colour of an edge, by the status of the child.\<close>

fun edge_colour :: "behaviour_status \<Rightarrow> rgb" where
  "edge_colour RUNNING = (0, 0, 0)"
| "edge_colour SUCCESS = (0, 255, 0)"
| "edge_colour FAILURE = (255, 0, 0)"
| "edge_colour INVALID = (224, 224, 224)"
| "edge_colour (OTHER_STATUS n) = (224, 224, 224)"

text \<open>
  The edges of one behaviour, in the order of its \<^verbatim>\<open>child_ids\<close>, and of a list of
  behaviours, in the order of the list. (The colour for a key that \<open>states\<close> lacks is
  never used: the lookup raises there.)
\<close>

definition child_edges_of ::
  "('i \<Rightarrow> string) \<Rightarrow> (string \<rightharpoonup> behaviour_status) \<Rightarrow> 'i behaviour \<Rightarrow> edge_args list" where
  "child_edges_of str states b =
     map (\<lambda>c. (str (own_id b), str c,
                (case states (str c) of None \<Rightarrow> (224, 224, 224) | Some st \<Rightarrow> edge_colour st)))
         (child_ids b)"

definition edges_of ::
  "('i \<Rightarrow> string) \<Rightarrow> (string \<rightharpoonup> behaviour_status) \<Rightarrow> 'i behaviour list \<Rightarrow> edge_args list" where
  "edges_of str states data = concat (map (child_edges_of str states) data)"

text \<open>No behaviour names a child that is not in the list.\<close>

definition no_dangling :: "'i behaviour list \<Rightarrow> bool" where
  "no_dangling data = (\<forall>b\<in>set data. \<forall>c\<in>set (child_ids b). c \<in> own_id ` set data)"

subsection \<open>A backend that records its calls\<close>

text \<open>
  To speak of the nodes and edges a graph contains, and of the calls a backend receives,
  one backend is made concrete: its graph is the layout values \<^verbatim>\<open>get_graph\<close> was
  called with, the list of node calls and the list of edge calls, each in the order of the
  calls; rendering returns the graph as it is.
\<close>

record 'r rgraph =
  g_rank :: "string option"
  g_rankdir :: "string option"
  g_ranksep :: "'r option"
  g_nodes :: "node_args list"
  g_edges :: "edge_args list"

definition recorder :: "('r, 'r rgraph, 'r rgraph) factory" where
  "recorder =
     \<lparr>get_graph = (\<lambda>rk rd rs. \<lparr>g_rank = rk, g_rankdir = rd, g_ranksep = rs, g_nodes = [], g_edges = []\<rparr>),
      add_node_to_graph = (\<lambda>g n l s c t. g\<lparr>g_nodes := g_nodes g @ [(n, l, s, c, t)]\<rparr>),
      add_edge_to_graph = (\<lambda>g p c col. g\<lparr>g_edges := g_edges g @ [(p, c, col)]\<rparr>),
      create_dot = (\<lambda>g. g)\<rparr>"

text \<open>The environment in which every reference is a recording backend.\<close>

definition rec_ops :: "nat \<Rightarrow> ('r, 'r rgraph, 'r rgraph) factory" where
  "rec_ops f = recorder"

subsection \<open>The generators that calls can produce\<close>

text \<open>
  A generator is created by \<^verbatim>\<open>__init__\<close> and changed by calls of
  \<^verbatim>\<open>generate_dotcode\<close> only, whatever their arguments and outcome.
\<close>

inductive reachable ::
  "('f \<Rightarrow> ('r, 'g, 'd) factory) \<Rightarrow> ('i \<Rightarrow> string) \<Rightarrow> ('f, 'r, 'g, 'd) generator \<Rightarrow> bool"
  for ops :: "'f \<Rightarrow> ('r, 'g, 'd) factory" and str :: "'i \<Rightarrow> string" where
  created: "reachable ops str init"
| called: "reachable ops str self \<Longrightarrow>
           reachable ops str (snd (generate_dotcode ops str self f t rk rs rd fr))"

text \<open>The stored factory and layout values are those of the stored \<^verbatim>\<open>last_drawargs\<close>.\<close>

definition consistent :: "('f, 'r, 'g, 'd) generator \<Rightarrow> bool" where
  "consistent self =
     (case last_drawargs self of
        None \<Rightarrow> True
      | Some d \<Rightarrow> dotcode_factory self = Some (da_dotcode_factory d) \<and> rank self = da_rank d \<and>
                  rankdir self = da_rankdir d \<and> ranksep self = da_ranksep d)"

text \<open>
  The generator with the arguments of a call stored: the factory, the layout values, the
  dictionary of the four, and the first-call flag cleared.
\<close>

definition configured ::
  "('f, 'r, 'g, 'd) generator \<Rightarrow> 'f \<Rightarrow> string option \<Rightarrow> 'r option \<Rightarrow> string option \<Rightarrow>
   ('f, 'r, 'g, 'd) generator" where
  "configured self f rk rs rd =
     self\<lparr>firstcall := False,
          last_drawargs :=
            Some \<lparr>da_dotcode_factory = f, da_rank = rk, da_rankdir = rd, da_ranksep = rs\<rparr>,
          dotcode_factory := Some f, rank := rk, rankdir := rd, ranksep := rs\<rparr>"

text \<open>
  The generator as \<^verbatim>\<open>generate_dotcode\<close> leaves it before it builds the graph: after
  the test of \<^verbatim>\<open>firstcall\<close> and the comparison with \<^verbatim>\<open>last_drawargs\<close>.
\<close>

definition prepared ::
  "('f, 'r, 'g, 'd) generator \<Rightarrow> 'f \<Rightarrow> string option \<Rightarrow> 'r option \<Rightarrow> string option \<Rightarrow>
   ('f, 'r, 'g, 'd) generator" where
  "prepared self f rk rs rd =
     (let self1 = (if firstcall self then self\<lparr>firstcall := False\<rparr> else self) in
      if last_drawargs self1 \<noteq> Some \<lparr>da_dotcode_factory = f, da_rank = rk, da_rankdir = rd, da_ranksep = rs\<rparr>
      then self1\<lparr>last_drawargs := Some \<lparr>da_dotcode_factory = f, da_rank = rk, da_rankdir = rd, da_ranksep = rs\<rparr>,
                 dotcode_factory := Some f, rank := rk, rankdir := rd, ranksep := rs\<rparr>
      else self1)"

subsection \<open>A small tree for the examples\<close>

text \<open>
  A sequence that has succeeded with two children, one succeeded and one running; the
  identifiers are strings and print as themselves.
\<close>

definition example_root :: "string behaviour" where
  "example_root =
     \<lparr>own_id = ''a'', name = ''root'', class_name = ''Sequence'', type = SEQUENCE,
      status = SUCCESS, message = '''', child_ids = [''b'', ''c'']\<rparr>"

definition example_check :: "string behaviour" where
  "example_check =
     \<lparr>own_id = ''b'', name = ''check'', class_name = ''Check'', type = BEHAVIOUR,
      status = SUCCESS, message = ''ok'', child_ids = []\<rparr>"

definition example_act :: "string behaviour" where
  "example_act =
     \<lparr>own_id = ''c'', name = ''act'', class_name = ''Act'', type = BEHAVIOUR,
      status = RUNNING, message = ''busy'', child_ids = []\<rparr>"

definition example_data :: "string behaviour list" where
  "example_data = [example_root, example_check, example_act]"

text \<open>A new generator that has been given the recording backend, and nothing else.\<close>

definition recording_generator :: "(nat, nat, nat rgraph, nat rgraph) generator" where
  "recording_generator = init\<lparr>dotcode_factory := Some 0\<rparr>"

text \<open>The node calls of a build that returned.\<close>

definition built_nodes :: "error + 'r rgraph \<Rightarrow> node_args list option" where
  "built_nodes r = (case r of Inl e \<Rightarrow> None | Inr g \<Rightarrow> Some (g_nodes g))"

section \<open>Auxiliary facts\<close>

subsection \<open>The formatter in closed form\<close>

text \<open>
  The four field names, as \<^verbatim>\<open>replace\<close> and \<^verbatim>\<open>title\<close> compute them; one round of the
  loop, where the placeholder makes the concatenation succeed; the whole loop.
\<close>

lemma field_titles:
  "title (replace CHR ''_'' CHR '' '' ''class_name'') = ''Class Name''"
  "title (replace CHR ''_'' CHR '' '' ''type'') = ''Type''"
  "title (replace CHR ''_'' CHR '' '' ''status'') = ''Status''"
  "title (replace CHR ''_'' CHR '' '' ''message'') = ''Message''"
  by code_simp+

lemma placeholder_add:
  "py_add p (if py_not v then Some ''<i>empty</i>'' else v) = Inr (p @ shown v)"
  by (cases v) (simp_all add: shown_def)

lemma tooltip_loop_step:
  "tooltip_loop str b s (a # as) =
     (case (if a = ''type'' then Inr (type_to_string (type b))
            else if a = ''status'' then Inr (status_to_string (status b))
            else str_getattr str b a) of
        Inl e \<Rightarrow> Inl e
      | Inr v \<Rightarrow> tooltip_loop str b (s @ (''<b>'' @ title (replace CHR ''_'' CHR '' '' a) @ '':</b> '') @ shown v @ ''<br>'') as)"
  by (simp add: placeholder_add Let_def split: sum.splits)

lemma tooltip_string_eq:
  "behaviour_to_tooltip_string str b = Inr (tooltip_text b)"
  unfolding behaviour_to_tooltip_string_def to_display_def tooltip_text_def
  by (simp only: tooltip_loop_step field_titles) (simp add: str_getattr_def)

subsection \<open>The two passes in closed form\<close>

text \<open>
  The first loop never raises: it applies one node call per behaviour and extends the
  dictionary. The second loop applies one edge call per child when every key is present,
  and raises \<^verbatim>\<open>KeyError\<close> as soon as one is missing.
\<close>

lemma status_colour_truthy: "py_or (status_to_colour s) c = (case status_to_colour s of Some x \<Rightarrow> Some x | None \<Rightarrow> c)"
  by (simp add: py_or_def status_to_colour_def)

lemma add_nodes_eq:
  "add_nodes fac str g st data =
     Inr (foldl (node_call fac) g (map (node_args_of str) data),
          st ++ states_of str data)"
proof (induction data arbitrary: g st)
  case Nil
  show ?case by (simp add: states_of_def)
next
  case (Cons b data)
  have step: "add_nodes fac str g st (b # data) =
      add_nodes fac str (node_call fac g (node_args_of str b)) (st(str (own_id b) \<mapsto> status b)) data"
    by (simp add: tooltip_string_eq node_call_def node_args_of_def status_colour_truthy)
  have upd: "(st(str (own_id b) \<mapsto> status b)) ++ states_of str data = st ++ states_of str (b # data)"
    by (simp add: states_of_def map_add_def fun_eq_iff split: option.splits)
  show ?case
    unfolding step Cons.IH upd by simp
qed

lemma edge_colour_chain:
  "(if state = RUNNING then (0, 0, 0)
    else if state = SUCCESS then (0, 255, 0)
    else if state = FAILURE then (255, 0, 0)
    else (224, 224, 224)) = edge_colour state"
  by (cases state) simp_all

lemma add_child_edges_ok:
  "\<forall>c\<in>set cs. st (str c) \<noteq> None \<Longrightarrow>
   add_child_edges fac str st g b cs =
     Inr (foldl (edge_call fac) g
            (map (\<lambda>c. (str (own_id b), str c,
                  (case st (str c) of None \<Rightarrow> (224, 224, 224) | Some s \<Rightarrow> edge_colour s))) cs))"
proof (induction cs arbitrary: g)
  case Nil
  show ?case by simp
next
  case (Cons c cs)
  then obtain s where s: "st (str c) = Some s" by auto
  from Cons show ?case
    by (simp add: s edge_colour_chain edge_call_def)
qed

lemma add_child_edges_fail:
  "\<exists>c\<in>set cs. st (str c) = None \<Longrightarrow> \<exists>k. add_child_edges fac str st g b cs = Inl (KeyError k)"
proof (induction cs arbitrary: g)
  case Nil
  then show ?case by simp
next
  case (Cons c cs)
  show ?case
  proof (cases "st (str c)")
    case None
    then show ?thesis by simp
  next
    case (Some s)
    with Cons.prems have "\<exists>c\<in>set cs. st (str c) = None" by auto
    then have "\<exists>k. add_child_edges fac str st
        (add_edge_to_graph fac g (str (own_id b)) (str c) (edge_colour s)) b cs = Inl (KeyError k)"
      by (rule Cons.IH)
    then show ?thesis by (simp add: Some edge_colour_chain)
  qed
qed

lemma add_edges_ok:
  "\<forall>b\<in>set data. \<forall>c\<in>set (child_ids b). st (str c) \<noteq> None \<Longrightarrow>
   add_edges fac str st g data = Inr (foldl (edge_call fac) g (edges_of str st data))"
proof (induction data arbitrary: g)
  case Nil
  show ?case by (simp add: edges_of_def)
next
  case (Cons b data)
  have "add_child_edges fac str st g b (child_ids b) =
          Inr (foldl (edge_call fac) g (child_edges_of str st b))"
    unfolding child_edges_of_def using Cons.prems by (intro add_child_edges_ok) simp
  moreover have "\<forall>b\<in>set data. \<forall>c\<in>set (child_ids b). st (str c) \<noteq> None"
    using Cons.prems by simp
  ultimately show ?case
    using Cons.IH by (simp add: edges_of_def)
qed

lemma add_edges_fail:
  "\<exists>b\<in>set data. \<exists>c\<in>set (child_ids b). st (str c) = None \<Longrightarrow>
   \<exists>k. add_edges fac str st g data = Inl (KeyError k)"
proof (induction data arbitrary: g)
  case Nil
  then show ?case by simp
next
  case (Cons b data)
  show ?case
  proof (cases "\<exists>c\<in>set (child_ids b). st (str c) = None")
    case True
    then have "\<exists>k. add_child_edges fac str st g b (child_ids b) = Inl (KeyError k)"
      by (rule add_child_edges_fail)
    then show ?thesis by auto
  next
    case False
    then have "\<forall>c\<in>set (child_ids b). st (str c) \<noteq> None" by simp
    then have "\<exists>g'. add_child_edges fac str st g b (child_ids b) = Inr g'"
      by (simp add: add_child_edges_ok)
    then obtain g' where g': "add_child_edges fac str st g b (child_ids b) = Inr g'" ..
    from Cons.prems False have "\<exists>b\<in>set data. \<exists>c\<in>set (child_ids b). st (str c) = None" by auto
    then have "\<exists>k. add_edges fac str st g' data = Inl (KeyError k)" by (rule Cons.IH)
    then show ?thesis by (simp add: g')
  qed
qed

text \<open>The keys of the dictionary, and its values when the keys are distinct.\<close>

lemma dom_states_of: "dom (states_of str data) = (\<lambda>b. str (own_id b)) ` set data"
  by (force simp: states_of_def dom_map_of_conv_image_fst)

lemma states_of_distinct:
  "distinct (map (\<lambda>b. str (own_id b)) data) \<Longrightarrow> b \<in> set data \<Longrightarrow>
   states_of str data (str (own_id b)) = Some (status b)"
  unfolding states_of_def
  by (rule map_of_is_SomeI) (auto simp: distinct_rev rev_map[symmetric] comp_def map_fst_zip)

subsection \<open>The build as a whole\<close>

text \<open>The recording backend appends; a build on it that returned is read off its graph.\<close>

lemma recorder_nodes:
  "foldl (node_call recorder) g xs = g\<lparr>g_nodes := g_nodes g @ xs\<rparr>"
  by (induction xs arbitrary: g) (simp_all add: node_call_def recorder_def split: prod.splits)

lemma recorder_edges:
  "foldl (edge_call recorder) g xs = g\<lparr>g_edges := g_edges g @ xs\<rparr>"
  by (induction xs arbitrary: g) (simp_all add: edge_call_def recorder_def split: prod.splits)

lemma generate_nonempty:
  "data \<noteq> [] \<Longrightarrow> dotcode_factory self = Some f \<Longrightarrow>
   generate ops str self data ts =
     add_edges (ops f) str (states_of str data)
       (foldl (node_call (ops f)) (get_graph (ops f) (rank self) (rankdir self) (ranksep self))
          (map (node_args_of str) data)) data"
  by (simp add: generate_def add_nodes_eq Let_def)

lemma no_dangling_keys:
  "no_dangling data \<Longrightarrow> \<forall>b\<in>set data. \<forall>c\<in>set (child_ids b). states_of str data (str c) \<noteq> None"
proof (intro ballI)
  fix b c assume nd: "no_dangling data" and "b \<in> set data" "c \<in> set (child_ids b)"
  then have "c \<in> own_id ` set data" by (auto simp: no_dangling_def)
  then have "str c \<in> dom (states_of str data)" unfolding dom_states_of by auto
  then show "states_of str data (str c) \<noteq> None" by auto
qed

lemma generate_ok:
  assumes "data \<noteq> []" "no_dangling data" "dotcode_factory self = Some f"
  shows "generate ops str self data ts =
     Inr (foldl (edge_call (ops f))
            (foldl (node_call (ops f)) (get_graph (ops f) (rank self) (rankdir self) (ranksep self))
               (map (node_args_of str) data))
            (edges_of str (states_of str data) data))"
  using assms by (simp add: generate_nonempty add_edges_ok no_dangling_keys)

lemma edges_of_pairs:
  "map (\<lambda>(p, c, col). (p, c)) (edges_of str st data) =
   concat (map (\<lambda>b. map (\<lambda>c. (str (own_id b), str c)) (child_ids b)) data)"
  by (induction data) (simp_all add: edges_of_def child_edges_of_def comp_def)

lemma dangling_key:
  assumes "inj str" "b \<in> set data" "c \<in> set (child_ids b)" "c \<notin> own_id ` set data"
  shows "states_of str data (str c) = None"
proof -
  have "str c \<notin> (\<lambda>b. str (own_id b)) ` set data"
    using assms(1,4) by (auto dest: injD)
  then show ?thesis using dom_states_of[of str data] by auto
qed

lemma generate_recorded:
  assumes "data \<noteq> []" "dotcode_factory self = Some f" "generate rec_ops str self data ts = Inr g"
  shows "g = \<lparr>g_rank = rank self, g_rankdir = rankdir self, g_ranksep = ranksep self,
              g_nodes = map (node_args_of str) data,
              g_edges = edges_of str (states_of str data) data\<rparr>"
proof -
  have keys: "\<forall>b\<in>set data. \<forall>c\<in>set (child_ids b). states_of str data (str c) \<noteq> None"
  proof (rule ccontr)
    assume "\<not> ?thesis"
    then have "\<exists>b\<in>set data. \<exists>c\<in>set (child_ids b). states_of str data (str c) = None" by simp
    then have "\<exists>k. add_edges (rec_ops f) str (states_of str data)
        (foldl (node_call (rec_ops f)) (get_graph (rec_ops f) (rank self) (rankdir self) (ranksep self))
          (map (node_args_of str) data)) data = Inl (KeyError k)"
      by (rule add_edges_fail)
    with assms show False by (simp add: generate_nonempty)
  qed
  have "generate rec_ops str self data ts =
     Inr (foldl (edge_call recorder)
            (foldl (node_call recorder) (get_graph recorder (rank self) (rankdir self) (ranksep self))
               (map (node_args_of str) data))
            (edges_of str (states_of str data) data))"
    using assms(1,2) keys by (simp add: generate_nonempty add_edges_ok rec_ops_def)
  with assms(3) show ?thesis
    by (simp add: recorder_nodes recorder_edges) (simp add: recorder_def)
qed

subsection \<open>The entry point in steps\<close>

text \<open>
  \<^verbatim>\<open>generate\<close> reads the factory and the layout values only. A call is the
  bookkeeping \<open>prepared\<close> followed by the build and the rendering; after the
  bookkeeping the flag is cleared and the dictionary is stored, so a second round of
  bookkeeping changes nothing. From a consistent generator the bookkeeping yields
  \<open>configured\<close>, and every generator that calls produce is consistent.
\<close>

lemma generate_cong:
  "dotcode_factory a = dotcode_factory b \<Longrightarrow> rank a = rank b \<Longrightarrow> rankdir a = rankdir b \<Longrightarrow>
   ranksep a = ranksep b \<Longrightarrow> generate ops str a data ts = generate ops str b data ts"
  by (simp add: generate_def Let_def split: option.split)

lemma configured_unchanged:
  assumes "consistent self"
    and "last_drawargs self = Some \<lparr>da_dotcode_factory = f, da_rank = rk, da_rankdir = rd, da_ranksep = rs\<rparr>"
  shows "self\<lparr>firstcall := False\<rparr> = configured self f rk rs rd"
  using assms by (simp add: consistent_def configured_def)

lemma configured_changed:
  "self\<lparr>firstcall := False,
        last_drawargs := Some \<lparr>da_dotcode_factory = f, da_rank = rk, da_rankdir = rd, da_ranksep = rs\<rparr>,
        dotcode_factory := Some f, rank := rk, rankdir := rd, ranksep := rs\<rparr> = configured self f rk rs rd"
  by (simp add: configured_def)

lemma generate_dotcode_prepared:
  "generate_dotcode ops str self f tr rk rs rd fr =
     (case tr of
        None \<Rightarrow> (Inl AttributeError, prepared self f rk rs rd)
      | Some t \<Rightarrow>
          (case generate ops str (prepared self f rk rs rd) (behaviours t) (stamp t) of
             Inl e \<Rightarrow> (Inl e, prepared self f rk rs rd)
           | Inr g \<Rightarrow>
               (case dotcode_factory (prepared self f rk rs rd) of
                  None \<Rightarrow> (Inl AttributeError, (prepared self f rk rs rd)\<lparr>graph := Some g\<rparr>)
                | Some f' \<Rightarrow> (Inr (create_dot (ops f') g),
                     (prepared self f rk rs rd)\<lparr>graph := Some g, dotcode := Some (create_dot (ops f') g)\<rparr>))))"
  unfolding generate_dotcode_def prepared_def
  by (simp add: Let_def split: option.split sum.split)

lemma prepared_fixed:
  "\<not> firstcall s \<Longrightarrow>
   last_drawargs s = Some \<lparr>da_dotcode_factory = f, da_rank = rk, da_rankdir = rd, da_ranksep = rs\<rparr> \<Longrightarrow>
   prepared s f rk rs rd = s"
  by (simp add: prepared_def)

lemma prepared_flag: "\<not> firstcall (prepared self f rk rs rd)"
  by (simp add: prepared_def Let_def)

lemma prepared_drawargs:
  "last_drawargs (prepared self f rk rs rd) =
     Some \<lparr>da_dotcode_factory = f, da_rank = rk, da_rankdir = rd, da_ranksep = rs\<rparr>"
  by (simp add: prepared_def Let_def)

lemma prepared_consistent:
  assumes "consistent self"
  shows "prepared self f rk rs rd = configured self f rk rs rd"
proof (cases "last_drawargs self =
    Some \<lparr>da_dotcode_factory = f, da_rank = rk, da_rankdir = rd, da_ranksep = rs\<rparr>")
  case True
  have c: "self\<lparr>firstcall := False\<rparr> = configured self f rk rs rd"
    using assms True by (rule configured_unchanged)
  have "prepared self f rk rs rd = self\<lparr>firstcall := False\<rparr>"
  proof (cases "firstcall self")
    case True
    with \<open>last_drawargs self = _\<close> show ?thesis by (simp add: prepared_def)
  next
    case False
    then have "self\<lparr>firstcall := False\<rparr> = self" by simp
    with False \<open>last_drawargs self = _\<close> show ?thesis by (simp add: prepared_def)
  qed
  with c show ?thesis by simp
next
  case False
  then show ?thesis by (simp add: prepared_def configured_def)
qed

lemma prepared_again:
  "prepared ((prepared self f rk rs rd)\<lparr>graph := g, dotcode := d\<rparr>) f rk rs rd =
     (prepared self f rk rs rd)\<lparr>graph := g, dotcode := d\<rparr>"
  by (rule prepared_fixed) (simp_all add: prepared_flag prepared_drawargs)

lemma prepared_again_graph:
  "prepared ((prepared self f rk rs rd)\<lparr>graph := g\<rparr>) f rk rs rd = (prepared self f rk rs rd)\<lparr>graph := g\<rparr>"
  by (rule prepared_fixed) (simp_all add: prepared_flag prepared_drawargs)

lemma prepared_again_plain:
  "prepared (prepared self f rk rs rd) f rk rs rd = prepared self f rk rs rd"
  by (rule prepared_fixed) (simp_all add: prepared_flag prepared_drawargs)

lemma generate_graph_update:
  "generate ops str (s\<lparr>graph := g, dotcode := d\<rparr>) data ts = generate ops str s data ts"
  "generate ops str (s\<lparr>graph := g\<rparr>) data ts = generate ops str s data ts"
  by (rule generate_cong; simp)+

lemma generate_dotcode_consistent:
  assumes "consistent self"
  shows "generate_dotcode ops str self f (Some t) rk rs rd fr =
     (case generate ops str (configured self f rk rs rd) (behaviours t) (stamp t) of
        Inl e \<Rightarrow> (Inl e, configured self f rk rs rd)
      | Inr g \<Rightarrow> (Inr (create_dot (ops f) g),
                  (configured self f rk rs rd)\<lparr>graph := Some g, dotcode := Some (create_dot (ops f) g)\<rparr>))"
proof -
  have "dotcode_factory (configured self f rk rs rd) = Some f" by (simp add: configured_def)
  then show ?thesis
    by (simp add: generate_dotcode_prepared prepared_consistent[OF assms] split: sum.split)
qed

lemma consistent_configured: "consistent (configured self f rk rs rd)"
  by (simp add: consistent_def configured_def)

lemma consistent_graph:
  "consistent s \<Longrightarrow> consistent (s\<lparr>graph := g\<rparr>)"
  "consistent s \<Longrightarrow> consistent (s\<lparr>graph := g, dotcode := d\<rparr>)"
  by (simp_all add: consistent_def split: option.splits)

lemma consistent_step:
  assumes "consistent self"
  shows "consistent (snd (generate_dotcode ops str self f tr rk rs rd fr))"
proof -
  have "consistent (prepared self f rk rs rd)"
    by (simp add: prepared_consistent[OF assms] consistent_configured)
  then show ?thesis
    by (simp add: generate_dotcode_prepared consistent_graph split: option.split sum.split)
qed

lemma reachable_consistent: "reachable ops str self \<Longrightarrow> consistent self"
proof (induction rule: reachable.induct)
  case created
  show ?case by (simp add: consistent_def init_def)
next
  case (called self f t rk rs rd fr)
  then show ?case by (simp add: consistent_step)
qed

subsection \<open>The example tree\<close>

text \<open>The example has no dangling reference; its build and its first call, evaluated.\<close>

lemma example_no_dangling: "no_dangling example_data"
  by (simp add: no_dangling_def example_data_def example_root_def example_check_def
        example_act_def)

lemma example_edges:
  "edges_of id (states_of id example_data) example_data =
     [(''a'', ''b'', (0, 255, 0)), (''a'', ''c'', (0, 0, 0))]"
  by (simp add: edges_of_def child_edges_of_def states_of_def example_data_def
        example_root_def example_check_def example_act_def)

lemma example_build:
  assumes "dotcode_factory self = Some f"
  shows "generate rec_ops id self example_data ts =
     Inr \<lparr>g_rank = rank self, g_rankdir = rankdir self, g_ranksep = ranksep self,
          g_nodes = map (node_args_of id) example_data,
          g_edges = [(''a'', ''b'', (0, 255, 0)), (''a'', ''c'', (0, 0, 0))]\<rparr>"
proof -
  have "example_data \<noteq> []" by (simp add: example_data_def)
  then have "generate rec_ops id self example_data ts =
     Inr (foldl (edge_call (rec_ops f))
            (foldl (node_call (rec_ops f))
               (get_graph (rec_ops f) (rank self) (rankdir self) (ranksep self))
               (map (node_args_of id) example_data))
            (edges_of id (states_of id example_data) example_data))"
    using example_no_dangling assms by (rule generate_ok)
  then show ?thesis
    unfolding rec_ops_def recorder_nodes recorder_edges
    by (simp add: example_edges recorder_def)
qed

lemma example_recorded:
  "generate rec_ops id recording_generator example_data ts =
     Inr \<lparr>g_rank = None, g_rankdir = None, g_ranksep = None,
          g_nodes = map (node_args_of id) example_data,
          g_edges = [(''a'', ''b'', (0, 255, 0)), (''a'', ''c'', (0, 0, 0))]\<rparr>"
proof -
  have "dotcode_factory recording_generator = Some 0"
    by (simp add: recording_generator_def)
  from example_build [OF this] show ?thesis
    by (simp add: recording_generator_def init_def)
qed

lemma example_first_call:
  "generate_dotcode rec_ops id (init :: (nat, nat, nat rgraph, nat rgraph) generator) 0
     (Some \<lparr>behaviours = example_data, stamp = 0\<rparr>) (Some ''same'') (Some 2) (Some ''TB'') fr =
   (Inr \<lparr>g_rank = Some ''same'', g_rankdir = Some ''TB'', g_ranksep = Some 2,
         g_nodes = map (node_args_of id) example_data,
         g_edges = [(''a'', ''b'', (0, 255, 0)), (''a'', ''c'', (0, 0, 0))]\<rparr>,
    \<lparr>last_drawargs = Some \<lparr>da_dotcode_factory = 0, da_rank = Some ''same'',
                            da_rankdir = Some ''TB'', da_ranksep = Some 2\<rparr>,
     dotcode = Some \<lparr>g_rank = Some ''same'', g_rankdir = Some ''TB'', g_ranksep = Some 2,
         g_nodes = map (node_args_of id) example_data,
         g_edges = [(''a'', ''b'', (0, 255, 0)), (''a'', ''c'', (0, 0, 0))]\<rparr>,
     firstcall = False, rank = Some ''same'', rankdir = Some ''TB'', ranksep = Some 2,
     graph = Some \<lparr>g_rank = Some ''same'', g_rankdir = Some ''TB'', g_ranksep = Some 2,
         g_nodes = map (node_args_of id) example_data,
         g_edges = [(''a'', ''b'', (0, 255, 0)), (''a'', ''c'', (0, 0, 0))]\<rparr>,
     dotcode_factory = Some 0\<rparr>)"
proof -
  have i: "consistent (init :: (nat, nat, nat rgraph, nat rgraph) generator)"
    by (simp add: consistent_def init_def)
  have c: "dotcode_factory
      (configured (init :: (nat, nat, nat rgraph, nat rgraph) generator) 0 (Some ''same'')
         (Some 2) (Some ''TB'')) = Some 0"
    by (simp add: configured_def)
  show ?thesis
    by (simp add: generate_dotcode_consistent [OF i] example_build [OF c])
       (simp add: configured_def init_def rec_ops_def recorder_def)
qed

section \<open>The claims\<close>

subsection \<open>The classifier and the formatter\<close>

text \<open>
  C9. The shape classifier is total: it gives \<open>''box''\<close> for a sequence, \<open>''ellipse''\<close> for
  the other two recognised types (behaviour and selector), and \<open>''box''\<close> for every value
  that is none of the three constants; no case raises.
\<close>

theorem type_to_shape_total:
  "type_to_shape SEQUENCE = ''box'' \<and> type_to_shape BEHAVIOUR = ''ellipse'' \<and>
   type_to_shape SELECTOR = ''ellipse'' \<and> (\<forall>n. type_to_shape (OTHER_TYPE n) = ''box'')"
  by (simp add: type_to_shape_def)

text \<open>
  C8. The formatter returns a string for every behaviour (no branch of the model that
  raises is taken): between two quotes, the four fields class name, type, status and
  message in this order, each as \<open><b>Name:</b> value<br>\<close> with the name obtained from the
  attribute name by \<^verbatim>\<open>replace\<close> and \<^verbatim>\<open>title\<close>. A value that is the empty string or
  \<^verbatim>\<open>None\<close> is shown as \<open><i>empty</i>\<close>, and the label of a type or status that is
  none of the constants is \<^verbatim>\<open>None\<close>.
\<close>

theorem tooltip_never_raises:
  "behaviour_to_tooltip_string str b =
     Inr (''\"'' @
          ''<b>'' @ title (replace CHR ''_'' CHR '' '' ''class_name'') @ '':</b> '' @
            shown (Some (class_name b)) @ ''<br>'' @
          ''<b>'' @ title (replace CHR ''_'' CHR '' '' ''type'') @ '':</b> '' @
            shown (type_to_string (type b)) @ ''<br>'' @
          ''<b>'' @ title (replace CHR ''_'' CHR '' '' ''status'') @ '':</b> '' @
            shown (status_to_string (status b)) @ ''<br>'' @
          ''<b>'' @ title (replace CHR ''_'' CHR '' '' ''message'') @ '':</b> '' @
            shown (Some (message b)) @ ''<br>'' @
          ''\"'')
   \<and> title (replace CHR ''_'' CHR '' '' ''class_name'') = ''Class Name''
   \<and> title (replace CHR ''_'' CHR '' '' ''type'') = ''Type''
   \<and> title (replace CHR ''_'' CHR '' '' ''status'') = ''Status''
   \<and> title (replace CHR ''_'' CHR '' '' ''message'') = ''Message''
   \<and> shown None = ''<i>empty</i>'' \<and> shown (Some []) = ''<i>empty</i>''
   \<and> (\<forall>n. type_to_string (OTHER_TYPE n) = None)
   \<and> (\<forall>n. status_to_string (OTHER_STATUS n) = None)"
  by (simp add: tooltip_string_eq tooltip_text_def field_titles shown_def type_to_string_def
        status_to_string_def)

text \<open>
  A behaviour with an empty message and a status that is none of the constants: both
  fields show the placeholder.
\<close>

theorem tooltip_never_raises_witness:
  "behaviour_to_tooltip_string (\<lambda>i::string. i)
     \<lparr>own_id = ''a'', name = ''root'', class_name = ''Sequence'', type = SEQUENCE,
      status = OTHER_STATUS 9, message = '''', child_ids = []\<rparr> =
   Inr (''\"<b>Class Name:</b> Sequence<br><b>Type:</b> Sequence<br>'' @
        ''<b>Status:</b> <i>empty</i><br><b>Message:</b> <i>empty</i><br>\"'')"
  using tooltip_never_raises [of "\<lambda>i::string. i"
      "\<lparr>own_id = ''a'', name = ''root'', class_name = ''Sequence'', type = SEQUENCE,
        status = OTHER_STATUS 9, message = '''', child_ids = []\<rparr>"]
  by (simp add: shown_def type_to_string_def status_to_string_def)

subsection \<open>The graph builder\<close>

text \<open>
  C6. For the empty list of behaviours the build returns, for every backend and whatever
  the layout values, the graph of \<^verbatim>\<open>get_graph\<close> with the one node
  \<open>No behaviour data received\<close> added and no edge; it returns and does not raise. With
  the recording backend: one node call, no edge call.
\<close>

theorem empty_data_placeholder:
  "generate ops str (self\<lparr>dotcode_factory := Some f, rank := rk, rankdir := rd, ranksep := rs\<rparr>) [] ts =
     Inr (add_node_to_graph (ops f) (get_graph (ops f) rk rd rs)
            ''No behaviour data received'' None None None None)
   \<and> generate rec_ops str
         (self'\<lparr>dotcode_factory := Some f', rank := rk, rankdir := rd, ranksep := rs\<rparr>) [] ts =
     Inr \<lparr>g_rank = rk, g_rankdir = rd, g_ranksep = rs,
          g_nodes = [(''No behaviour data received'', None, None, None, None)], g_edges = []\<rparr>"
  by (simp add: generate_def rec_ops_def recorder_def)

text \<open>
  C1, as amended. For every non-empty list of behaviours in which every child identifier
  is the identifier of a behaviour of the list, and for every backend, the build returns
  the graph of \<^verbatim>\<open>get_graph\<close> to which the node calls of the behaviours have been
  applied in the order of the list, and then the edge calls, parent by parent in the order
  of the list and child by child in the order of \<^verbatim>\<open>child_ids\<close>. There are as many
  node calls as behaviours, and the edges are exactly the pairs of parent and child.
\<close>

theorem generate_one_node_per_behaviour:
  assumes "data \<noteq> []" and "no_dangling data"
  shows "generate ops str (self\<lparr>dotcode_factory := Some f\<rparr>) data ts =
     Inr (foldl (edge_call (ops f))
            (foldl (node_call (ops f)) (get_graph (ops f) (rank self) (rankdir self) (ranksep self))
               (map (node_args_of str) data))
            (edges_of str (states_of str data) data))
   \<and> length (map (node_args_of str) data) = length data
   \<and> map (\<lambda>(p, c, col). (p, c)) (edges_of str (states_of str data) data) =
       concat (map (\<lambda>b. map (\<lambda>c. (str (own_id b), str c)) (child_ids b)) data)"
  using assms by (simp add: generate_ok edges_of_pairs)

text \<open>The example tree with the recording backend: three nodes and two edges, in order.\<close>

theorem generate_one_node_per_behaviour_witness:
  "example_data \<noteq> [] \<and> no_dangling example_data \<and>
   generate rec_ops id recording_generator example_data 0 =
     Inr \<lparr>g_rank = None, g_rankdir = None, g_ranksep = None,
          g_nodes = [node_args_of id example_root, node_args_of id example_check,
                     node_args_of id example_act],
          g_edges = [(''a'', ''b'', (0, 255, 0)), (''a'', ''c'', (0, 0, 0))]\<rparr>"
proof -
  have ne: "example_data \<noteq> []" by (simp add: example_data_def)
  have nd: "no_dangling example_data"
    by (simp add: no_dangling_def example_data_def example_root_def example_check_def
          example_act_def)
  have e: "edges_of id (states_of id example_data) example_data =
      [(''a'', ''b'', (0, 255, 0)), (''a'', ''c'', (0, 0, 0))]"
    by (simp add: edges_of_def child_edges_of_def states_of_def example_data_def
          example_root_def example_check_def example_act_def)
  from generate_one_node_per_behaviour [OF ne nd, where ops = rec_ops and str = id and self = recording_generator and f = 0 and ts = 0]
  have "generate rec_ops id recording_generator example_data 0 =
      Inr (foldl (edge_call recorder)
            (foldl (node_call recorder) (get_graph recorder None None None)
               (map (node_args_of id) example_data))
            (edges_of id (states_of id example_data) example_data))"
    by (simp add: recording_generator_def rec_ops_def init_def)
  then show ?thesis
    using ne nd unfolding recorder_nodes recorder_edges
    by (simp add: e [unfolded example_data_def] recorder_def example_data_def)
qed

text \<open>
  C1 as stated fails for the empty list: no reference dangles there, and the graph has
  one node (the placeholder) for no behaviour.
\<close>

theorem generate_one_node_per_behaviour_counterexample:
  "no_dangling ([] :: string behaviour list) \<and>
   built_nodes (generate rec_ops id recording_generator ([] :: string behaviour list) 0) =
     Some [(''No behaviour data received'', None, None, None, None)] \<and>
   built_nodes (generate rec_ops id recording_generator ([] :: string behaviour list) 0) \<noteq>
     Some (map (node_args_of id) ([] :: string behaviour list))"
  by (simp add: no_dangling_def built_nodes_def generate_def recording_generator_def init_def
        rec_ops_def recorder_def)

text \<open>
  C2. When the printed form of identifiers is injective and some behaviour of the list
  names a child that is the identifier of no behaviour of the list, the build raises
  \<^verbatim>\<open>KeyError\<close> and returns no graph. When no behaviour names such a child, the build
  returns a graph: the lookup never raises.
\<close>

theorem dangling_reference_raises:
  "(inj str \<and> (\<exists>b\<in>set data. \<exists>c\<in>set (child_ids b). c \<notin> own_id ` set data)
      \<longrightarrow> (\<exists>k. generate ops str (self\<lparr>dotcode_factory := Some f\<rparr>) data ts = Inl (KeyError k)))
   \<and> (no_dangling data
      \<longrightarrow> (\<exists>g. generate ops str (self\<lparr>dotcode_factory := Some f\<rparr>) data ts = Inr g))"
proof (intro conjI impI)
  assume a: "inj str \<and> (\<exists>b\<in>set data. \<exists>c\<in>set (child_ids b). c \<notin> own_id ` set data)"
  then obtain b c where bc: "b \<in> set data" "c \<in> set (child_ids b)" "c \<notin> own_id ` set data"
    by blast
  then have ne: "data \<noteq> []" by auto
  have "states_of str data (str c) = None"
    using a bc by (intro dangling_key[of str b data c]) auto
  with bc have "\<exists>b\<in>set data. \<exists>c\<in>set (child_ids b). states_of str data (str c) = None"
    by blast
  then show "\<exists>k. generate ops str (self\<lparr>dotcode_factory := Some f\<rparr>) data ts = Inl (KeyError k)"
    using ne by (simp add: generate_nonempty add_edges_fail)
next
  assume nd: "no_dangling data"
  show "\<exists>g. generate ops str (self\<lparr>dotcode_factory := Some f\<rparr>) data ts = Inr g"
  proof (cases "data = []")
    case True
    then show ?thesis by (simp add: generate_def)
  next
    case False
    then show ?thesis using nd by (simp add: generate_ok)
  qed
qed

text \<open>
  The root alone names the children \<open>b\<close> and \<open>c\<close>, which are missing: the build raises.
  The whole example tree builds.
\<close>

theorem dangling_reference_raises_witness:
  "inj (id :: string \<Rightarrow> string) \<and>
   (\<exists>b\<in>set [example_root]. \<exists>c\<in>set (child_ids b). c \<notin> own_id ` set [example_root]) \<and>
   (\<exists>k. generate rec_ops id recording_generator [example_root] 0 = Inl (KeyError k)) \<and>
   no_dangling example_data \<and>
   (\<exists>g. generate rec_ops id recording_generator example_data 0 = Inr g)"
proof -
  have d: "\<exists>b\<in>set [example_root]. \<exists>c\<in>set (child_ids b). c \<notin> own_id ` set [example_root]"
    by (simp add: example_root_def)
  have nd: "no_dangling example_data"
    by (simp add: no_dangling_def example_data_def example_root_def example_check_def
          example_act_def)
  have i: "inj (id :: string \<Rightarrow> string)" by simp
  from dangling_reference_raises [where str = id and data = "[example_root]" and ops = rec_ops and self = recording_generator and f = 0 and ts = 0] i d
  have 1: "\<exists>k. generate rec_ops id recording_generator [example_root] 0 = Inl (KeyError k)"
    by (simp add: recording_generator_def)
  from dangling_reference_raises [where str = id and data = example_data and ops = rec_ops and self = recording_generator and f = 0 and ts = 0] nd
  have 2: "\<exists>g. generate rec_ops id recording_generator example_data 0 = Inr g"
    by (simp add: recording_generator_def)
  from i d 1 nd 2 show ?thesis by blast
qed

text \<open>
  C3. In a build that returns for a non-empty list, the colours of the node calls are, in
  the order of the behaviours, the colour of the status where the status has one, else
  the colour of the type where the type has one, else none. A sequence that has succeeded
  gets the colour of success, \<open>#00ff00\<close>, not the colour of a sequence, \<open>#ff9900\<close>.
\<close>

theorem node_colour_precedence:
  assumes "data \<noteq> []"
    and "generate rec_ops str (self\<lparr>dotcode_factory := Some f\<rparr>) data ts = Inr g"
  shows "map (\<lambda>(n, l, s, c, t). c) (g_nodes g) =
           map (\<lambda>b. case status_to_colour (status b) of
                      Some c \<Rightarrow> Some c
                    | None \<Rightarrow> (case type_to_colour (type b) of Some c \<Rightarrow> Some c | None \<Rightarrow> None))
               data
         \<and> status_to_colour SUCCESS = Some ''#00ff00''
         \<and> type_to_colour SEQUENCE = Some ''#ff9900''"
proof -
  have "g_nodes g = map (node_args_of str) data"
    using generate_recorded[OF assms(1) _ assms(2)] by simp
  moreover have "\<And>x::string option. (case x of Some c \<Rightarrow> Some c | None \<Rightarrow> None) = x"
    by (simp split: option.splits)
  ultimately show ?thesis
    by (simp add: node_args_of_def comp_def status_to_colour_def type_to_colour_def)
qed

text \<open>
  In the example the root is a sequence that has succeeded: its node is green, as is the
  node of the child that has succeeded; the node of the running child is black.
\<close>

theorem node_colour_precedence_witness:
  "example_data \<noteq> [] \<and>
   (\<exists>g. generate rec_ops id recording_generator example_data 0 = Inr g \<and>
        map (\<lambda>(n, l, s, c, t). c) (g_nodes g) =
          [Some ''#00ff00'', Some ''#00ff00'', Some ''#000000''])"
proof -
  have ne: "example_data \<noteq> []" by (simp add: example_data_def)
  obtain g where g: "generate rec_ops id recording_generator example_data 0 = Inr g"
    by (simp add: example_recorded)
  then have "generate rec_ops id (recording_generator\<lparr>dotcode_factory := Some 0\<rparr>) example_data 0 = Inr g"
    by (simp add: recording_generator_def)
  from node_colour_precedence [OF ne this]
  have "map (\<lambda>(n, l, s, c, t). c) (g_nodes g) =
          [Some ''#00ff00'', Some ''#00ff00'', Some ''#000000'']"
    by (simp add: example_data_def example_root_def example_check_def example_act_def
          status_to_colour_def)
  with ne g show ?thesis by (intro conjI exI [of _ g]) simp_all
qed

text \<open>
  C7. In a build that returns, for a list of behaviours with distinct printed
  identifiers, every edge call leads to the printed identifier of a behaviour of the list,
  and its colour is black when that child is running, green when it has succeeded, red
  when it has failed, and the light gray \<open>(224, 224, 224)\<close> otherwise, in particular for
  an invalid child.
\<close>

theorem edge_colour_from_child_status:
  assumes "distinct (map (\<lambda>b. str (own_id b)) data)"
    and "generate rec_ops str (self\<lparr>dotcode_factory := Some f\<rparr>) data ts = Inr g"
  shows "\<forall>(p, k, col)\<in>set (g_edges g).
           (\<exists>child\<in>set data. str (own_id child) = k) \<and>
           (\<forall>child\<in>set data. str (own_id child) = k \<longrightarrow>
              col = (if status child = RUNNING then (0, 0, 0)
                     else if status child = SUCCESS then (0, 255, 0)
                     else if status child = FAILURE then (255, 0, 0)
                     else (224, 224, 224)))"
proof (cases "data = []")
  case True
  with assms(2) show ?thesis by (auto simp: generate_def rec_ops_def recorder_def)
next
  case False
  have g: "g_edges g = edges_of str (states_of str data) data"
    using generate_recorded[OF False _ assms(2)] by simp
  have keys: "\<forall>b\<in>set data. \<forall>c\<in>set (child_ids b). states_of str data (str c) \<noteq> None"
  proof (rule ccontr)
    assume "\<not> ?thesis"
    then have "\<exists>b\<in>set data. \<exists>c\<in>set (child_ids b). states_of str data (str c) = None"
      by simp
    then have "\<exists>k. add_edges (rec_ops f) str (states_of str data)
        (foldl (node_call (rec_ops f))
           (get_graph (rec_ops f) (rank self) (rankdir self) (ranksep self))
           (map (node_args_of str) data)) data = Inl (KeyError k)"
      by (rule add_edges_fail)
    with assms(2) False show False by (simp add: generate_nonempty)
  qed
  show ?thesis
  proof (clarify, intro conjI ballI impI)
    fix p k col assume "(p, k, col) \<in> set (g_edges g)"
    then obtain b c where bc: "b \<in> set data" "c \<in> set (child_ids b)" "k = str c"
      and col: "col = (case states_of str data (str c) of
                         None \<Rightarrow> (224, 224, 224) | Some st \<Rightarrow> edge_colour st)"
      unfolding g edges_of_def child_edges_of_def by auto
    from keys bc have "str c \<in> dom (states_of str data)" by auto
    then show "\<exists>child\<in>set data. str (own_id child) = k"
      unfolding dom_states_of using bc(3) by auto
    fix child assume ch: "child \<in> set data" "str (own_id child) = k"
    have "states_of str data (str c) = Some (status child)"
      using states_of_distinct[OF assms(1) ch(1)] ch(2) bc(3) by simp
    with col show "col = (if status child = RUNNING then (0, 0, 0)
                     else if status child = SUCCESS then (0, 255, 0)
                     else if status child = FAILURE then (255, 0, 0)
                     else (224, 224, 224))"
      by (simp add: edge_colour_chain)
  qed
qed

text \<open>
  In the example the edge to the child that has succeeded is green and the edge to the
  running child is black. A parent with an invalid child gets a light gray edge.
\<close>

theorem edge_colour_from_child_status_witness:
  "distinct (map (\<lambda>b. id (own_id b)) example_data) \<and>
   (\<exists>g. generate rec_ops id recording_generator example_data 0 = Inr g \<and>
        g_edges g = [(''a'', ''b'', (0, 255, 0)), (''a'', ''c'', (0, 0, 0))])"
proof -
  have d: "distinct (map (\<lambda>b. id (own_id b)) example_data)"
    by (simp add: example_data_def example_root_def example_check_def example_act_def)
  obtain g where g: "generate rec_ops id recording_generator example_data 0 = Inr g"
    and pairs: "map (\<lambda>(p, k, col). (p, k)) (g_edges g) = [(''a'', ''b''), (''a'', ''c'')]"
    by (simp add: example_recorded)
  then have "generate rec_ops id (recording_generator\<lparr>dotcode_factory := Some 0\<rparr>) example_data 0 = Inr g"
    by (simp add: recording_generator_def)
  from edge_colour_from_child_status [OF d this]
  have cols: "\<forall>(p, k, col)\<in>set (g_edges g).
       (k = ''b'' \<longrightarrow> col = (0, 255, 0)) \<and> (k = ''c'' \<longrightarrow> col = (0, 0, 0))"
    by (auto simp: example_data_def example_root_def example_check_def example_act_def)
  from pairs obtain c1 c2 where e: "g_edges g = [(''a'', ''b'', c1), (''a'', ''c'', c2)]"
    by (auto simp: map_eq_Cons_conv)
  with cols have "c1 = (0, 255, 0)" "c2 = (0, 0, 0)" by auto
  with e d g show ?thesis by (intro conjI exI [of _ g]) simp_all
qed

subsection \<open>The entry point\<close>

text \<open>
  C10. The argument \<^verbatim>\<open>force_refresh\<close> is read by nothing: for every generator, every
  backend and all other arguments, the call with \<open>True\<close> and the call with \<open>False\<close>
  have the same outcome and leave the same generator.
\<close>

theorem force_refresh_is_not_read:
  "generate_dotcode ops str self f t rk rs rd True =
   generate_dotcode ops str self f t rk rs rd False"
  by (simp add: generate_dotcode_def)

text \<open>
  C4. On every call with a tree, from every generator that \<^verbatim>\<open>__init__\<close> and earlier
  calls can have produced (the new generator among them) and for either value of
  \<^verbatim>\<open>force_refresh\<close>, the generator first holds the factory and the layout values of
  this call, and the graph is built by \<^verbatim>\<open>generate\<close> from the behaviours of the tree
  with these. When the build returns a graph \<open>g\<close>, the call returns
  \<^verbatim>\<open>create_dot\<close> of the factory of this call applied to \<open>g\<close>, and both \<open>g\<close> and the
  rendered result are stored; when it raises, the call raises the same.
\<close>

theorem generate_dotcode_rebuilds:
  assumes "reachable ops str self"
  shows "generate_dotcode ops str self f (Some t) rk rs rd fr =
     (case generate ops str (configured self f rk rs rd) (behaviours t) (stamp t) of
        Inl e \<Rightarrow> (Inl e, configured self f rk rs rd)
      | Inr g \<Rightarrow> (Inr (create_dot (ops f) g),
                  (configured self f rk rs rd)
                    \<lparr>graph := Some g, dotcode := Some (create_dot (ops f) g)\<rparr>))
   \<and> dotcode_factory (configured self f rk rs rd) = Some f
   \<and> rank (configured self f rk rs rd) = rk
   \<and> rankdir (configured self f rk rs rd) = rd
   \<and> ranksep (configured self f rk rs rd) = rs
   \<and> last_drawargs (configured self f rk rs rd) =
       Some \<lparr>da_dotcode_factory = f, da_rank = rk, da_rankdir = rd, da_ranksep = rs\<rparr>"
proof -
  from assms have "consistent self" by (rule reachable_consistent)
  then have "generate_dotcode ops str self f (Some t) rk rs rd fr =
     (case generate ops str (configured self f rk rs rd) (behaviours t) (stamp t) of
        Inl e \<Rightarrow> (Inl e, configured self f rk rs rd)
      | Inr g \<Rightarrow> (Inr (create_dot (ops f) g),
                  (configured self f rk rs rd)
                    \<lparr>graph := Some g, dotcode := Some (create_dot (ops f) g)\<rparr>))"
    by (rule generate_dotcode_consistent)
  then show ?thesis by (simp add: configured_def)
qed

text \<open>
  The very first call, with \<^verbatim>\<open>force_refresh\<close> false, on the example tree and the
  recording backend: the whole graph is built with the layout values of the call,
  returned and stored.
\<close>

theorem generate_dotcode_rebuilds_witness:
  "reachable rec_ops id (init :: (nat, nat, nat rgraph, nat rgraph) generator) \<and>
   generate_dotcode rec_ops id (init :: (nat, nat, nat rgraph, nat rgraph) generator) 0
     (Some \<lparr>behaviours = example_data, stamp = 0\<rparr>) (Some ''same'') (Some 2) (Some ''TB'') False =
   (Inr \<lparr>g_rank = Some ''same'', g_rankdir = Some ''TB'', g_ranksep = Some 2,
         g_nodes = map (node_args_of id) example_data,
         g_edges = [(''a'', ''b'', (0, 255, 0)), (''a'', ''c'', (0, 0, 0))]\<rparr>,
    \<lparr>last_drawargs = Some \<lparr>da_dotcode_factory = 0, da_rank = Some ''same'',
                            da_rankdir = Some ''TB'', da_ranksep = Some 2\<rparr>,
     dotcode = Some \<lparr>g_rank = Some ''same'', g_rankdir = Some ''TB'', g_ranksep = Some 2,
         g_nodes = map (node_args_of id) example_data,
         g_edges = [(''a'', ''b'', (0, 255, 0)), (''a'', ''c'', (0, 0, 0))]\<rparr>,
     firstcall = False, rank = Some ''same'', rankdir = Some ''TB'', ranksep = Some 2,
     graph = Some \<lparr>g_rank = Some ''same'', g_rankdir = Some ''TB'', g_ranksep = Some 2,
         g_nodes = map (node_args_of id) example_data,
         g_edges = [(''a'', ''b'', (0, 255, 0)), (''a'', ''c'', (0, 0, 0))]\<rparr>,
     dotcode_factory = Some 0\<rparr>)"
proof -
  have r: "reachable rec_ops id (init :: (nat, nat, nat rgraph, nat rgraph) generator)"
    by (rule reachable.created)
  have c: "dotcode_factory
      (configured (init :: (nat, nat, nat rgraph, nat rgraph) generator) 0 (Some ''same'')
         (Some 2) (Some ''TB'')) = Some 0"
    by (simp add: configured_def)
  from generate_dotcode_rebuilds [OF r, where f = 0 and t = "\<lparr>behaviours = example_data, stamp = 0\<rparr>"
      and rk = "Some ''same''" and rs = "Some 2" and rd = "Some ''TB''" and fr = False]
  show ?thesis
    using r by (simp add: example_build [OF c]) (simp add: configured_def init_def rec_ops_def recorder_def)
qed

text \<open>
  C5. For every generator (after the first call or before it), a call and a second call
  with the same arguments right after it have the same outcome, and the second call
  leaves the generator as the first call left it. The backend is arbitrary: with the
  recording backend the outcome and the stored graph are the calls the backend received,
  so these are the same both times.
\<close>

theorem generate_dotcode_idempotent:
  "generate_dotcode ops str (snd (generate_dotcode ops str self f tr rk rs rd False))
     f tr rk rs rd False =
   generate_dotcode ops str self f tr rk rs rd False"
proof (cases tr)
  case None
  then show ?thesis by (simp add: generate_dotcode_prepared prepared_again_plain)
next
  case (Some t)
  note tree = this
  show ?thesis
  proof (cases "generate ops str (prepared self f rk rs rd) (behaviours t) (stamp t)")
    case (Inl e)
    then show ?thesis by (simp add: generate_dotcode_prepared tree prepared_again_plain)
  next
    case (Inr g)
    show ?thesis
    proof (cases "dotcode_factory (prepared self f rk rs rd)")
      case None
      let ?Q = "(prepared self f rk rs rd)\<lparr>graph := Some g\<rparr>"
      have first: "generate_dotcode ops str self f tr rk rs rd False = (Inl AttributeError, ?Q)"
        by (simp add: generate_dotcode_prepared tree Inr None)
      have "generate_dotcode ops str ?Q f tr rk rs rd False = (Inl AttributeError, ?Q)"
        by (simp add: generate_dotcode_prepared [of _ _ "_\<lparr>graph := _\<rparr>"] tree
              prepared_again_graph generate_graph_update Inr None)
      with first show ?thesis by simp
    next
      case (Some f')
      let ?Q = "(prepared self f rk rs rd)
                  \<lparr>graph := Some g, dotcode := Some (create_dot (ops f') g)\<rparr>"
      have first: "generate_dotcode ops str self f tr rk rs rd False =
          (Inr (create_dot (ops f') g), ?Q)"
        by (simp add: generate_dotcode_prepared tree Inr Some)
      have "generate_dotcode ops str ?Q f tr rk rs rd False = (Inr (create_dot (ops f') g), ?Q)"
        by (simp add: generate_dotcode_prepared [of _ _ "_\<lparr>graph := _, dotcode := _\<rparr>"] tree
              prepared_again generate_graph_update Inr Some)
      with first show ?thesis by simp
    qed
  qed
qed

text \<open>
  Two calls in a row on the example tree: the second returns what the first returned and
  leaves the generator that the first left.
\<close>

theorem generate_dotcode_idempotent_witness:
  "generate_dotcode rec_ops id
     (snd (generate_dotcode rec_ops id (init :: (nat, nat, nat rgraph, nat rgraph) generator) 0
        (Some \<lparr>behaviours = example_data, stamp = 0\<rparr>) (Some ''same'') (Some 2) (Some ''TB'') False))
     0 (Some \<lparr>behaviours = example_data, stamp = 0\<rparr>) (Some ''same'') (Some 2) (Some ''TB'') False =
   (Inr \<lparr>g_rank = Some ''same'', g_rankdir = Some ''TB'', g_ranksep = Some 2,
         g_nodes = map (node_args_of id) example_data,
         g_edges = [(''a'', ''b'', (0, 255, 0)), (''a'', ''c'', (0, 0, 0))]\<rparr>,
    \<lparr>last_drawargs = Some \<lparr>da_dotcode_factory = 0, da_rank = Some ''same'',
                            da_rankdir = Some ''TB'', da_ranksep = Some 2\<rparr>,
     dotcode = Some \<lparr>g_rank = Some ''same'', g_rankdir = Some ''TB'', g_ranksep = Some 2,
         g_nodes = map (node_args_of id) example_data,
         g_edges = [(''a'', ''b'', (0, 255, 0)), (''a'', ''c'', (0, 0, 0))]\<rparr>,
     firstcall = False, rank = Some ''same'', rankdir = Some ''TB'', ranksep = Some 2,
     graph = Some \<lparr>g_rank = Some ''same'', g_rankdir = Some ''TB'', g_ranksep = Some 2,
         g_nodes = map (node_args_of id) example_data,
         g_edges = [(''a'', ''b'', (0, 255, 0)), (''a'', ''c'', (0, 0, 0))]\<rparr>,
     dotcode_factory = Some 0\<rparr>)"
  using generate_dotcode_idempotent [where ops = rec_ops and str = id
      and self = "init :: (nat, nat, nat rgraph, nat rgraph) generator" and f = 0
      and tr = "Some \<lparr>behaviours = example_data, stamp = 0\<rparr>"
      and rk = "Some ''same''" and rs = "Some 2" and rd = "Some ''TB''"]
  by (simp only: example_first_call)

end
